theory Spec2Isabelle
  imports Complex_Main
begin

section \<open>JavaScript values\<close>

text \<open>
  The program is one React module, \<^verbatim>\<open>src/frontend/src/App.jsx\<close>. Its two pieces of logic are
  the event handler \<^verbatim>\<open>handleQuery\<close> of the component \<^verbatim>\<open>App\<close> and the two memoised
  computations \<^verbatim>\<open>chartStructure\<close> and \<^verbatim>\<open>sanitized\<close> of the component \<^verbatim>\<open>ChartPreview\<close>.
  Both work on values decoded from a JSON body. The embedding starts with the JavaScript
  values that \<^verbatim>\<open>response.json()\<close> can produce, together with what the code itself can
  reach from them: \<^verbatim>\<open>undefined\<close>, \<^verbatim>\<open>NaN\<close>, the built-in functions and the two prototype
  objects that a property read finds on the prototype chain, and the records that
  \<^verbatim>\<open>sanitized\<close> builds, whose prototype an assignment to \<^verbatim>\<open>__proto__\<close> can change.

  Scope of the value model:
  \<^item> a string is a list of UTF-16 code units below 256 (one \<^typ>\<open>char\<close> each);
  \<^item> a finite number is a rational; the numbers of JavaScript are those that are binary64
    values, and a numeric literal is rounded to the nearest of them; the two zeros are
    one value;
  \<^item> an object is its prototype and the list of its own enumerable properties in the order
    of \<^verbatim>\<open>Object.keys\<close>; a decoded object has the prototype \<^verbatim>\<open>Object.prototype\<close>;
  \<^item> the properties of \<^verbatim>\<open>Object.prototype\<close> and \<^verbatim>\<open>Array.prototype\<close> are those of
    ECMAScript 2023 (with its annex for browsers), none of them redefined.
\<close>

datatype jsnum = Finite rat | NaN | PosInfinity | NegInfinity

datatype jsval =
    JUndefined
  | JNull
  | JBool bool
  | JNum jsnum
  | JStr string
  | JArr "jsval list"
  | JObj jsval "(string \<times> jsval) list"
  | JFunction string
  | JObjectPrototype
  | JArrayPrototype

datatype js_error = TypeError

text \<open>\<^verbatim>\<open>typeof v\<close>.\<close>

fun typeof :: "jsval \<Rightarrow> string" where
  "typeof JUndefined = ''undefined''"
| "typeof JNull = ''object''"
| "typeof (JBool b) = ''boolean''"
| "typeof (JNum n) = ''number''"
| "typeof (JStr s) = ''string''"
| "typeof (JArr xs) = ''object''"
| "typeof (JObj p kvs) = ''object''"
| "typeof (JFunction f) = ''function''"
| "typeof JObjectPrototype = ''object''"
| "typeof JArrayPrototype = ''object''"

text \<open>Truthiness (\<^verbatim>\<open>ToBoolean\<close>), as used by \<^verbatim>\<open>if (v)\<close>, \<^verbatim>\<open>!v\<close>, \<^verbatim>\<open>a && b\<close> and \<^verbatim>\<open>a || b\<close>.\<close>

fun ToBoolean :: "jsval \<Rightarrow> bool" where
  "ToBoolean JUndefined = False"
| "ToBoolean JNull = False"
| "ToBoolean (JBool b) = b"
| "ToBoolean (JNum n) = (n \<noteq> NaN \<and> n \<noteq> Finite 0)"
| "ToBoolean (JStr s) = (s \<noteq> [])"
| "ToBoolean v = True"

text \<open>\<^verbatim>\<open>Number.isFinite(v)\<close>: true for a number that is neither NaN nor an infinity.\<close>

fun Number_isFinite :: "jsval \<Rightarrow> bool" where
  "Number_isFinite (JNum (Finite q)) = True"
| "Number_isFinite v = False"

text \<open>Whether a value is an object (a function is one), and whether it can be called.\<close>

fun is_object :: "jsval \<Rightarrow> bool" where
  "is_object (JArr xs) = True"
| "is_object (JObj p kvs) = True"
| "is_object (JFunction f) = True"
| "is_object JObjectPrototype = True"
| "is_object JArrayPrototype = True"
| "is_object v = False"

fun IsCallable :: "jsval \<Rightarrow> bool" where
  "IsCallable (JFunction f) = True"
| "IsCallable v = False"

subsection \<open>Strings and numeric literals\<close>

definition is_ws :: "char \<Rightarrow> bool" where
  \<comment> \<open>white space and line terminators among the code units below 256\<close>
  "is_ws c = (c \<in> set [CHR 0x09, CHR 0x0A, CHR 0x0B, CHR 0x0C, CHR 0x0D, CHR 0x20, CHR 0xA0])"

text \<open>\<^verbatim>\<open>String.prototype.trim\<close>.\<close>

definition trim :: "string \<Rightarrow> string" where
  "trim s = rev (dropWhile is_ws (rev (dropWhile is_ws s)))"

definition is_digit :: "char \<Rightarrow> bool" where
  "is_digit c = (48 \<le> (of_char c :: nat) \<and> (of_char c :: nat) \<le> 57)"

definition is_hex :: "char \<Rightarrow> bool" where
  "is_hex c = (is_digit c \<or> (65 \<le> (of_char c :: nat) \<and> (of_char c :: nat) \<le> 70)
     \<or> (97 \<le> (of_char c :: nat) \<and> (of_char c :: nat) \<le> 102))"

definition is_octal :: "char \<Rightarrow> bool" where
  "is_octal c = (48 \<le> (of_char c :: nat) \<and> (of_char c :: nat) \<le> 55)"

definition is_binary :: "char \<Rightarrow> bool" where
  "is_binary c = (c = CHR ''0'' \<or> c = CHR ''1'')"

definition digit_val :: "char \<Rightarrow> int" where
  \<comment> \<open>the value of a decimal or hexadecimal digit\<close>
  "digit_val c = (let n = of_char c in
     if 97 \<le> n then n - 87 else if 65 \<le> n then n - 55 else n - 48)"

definition digits_val :: "int \<Rightarrow> string \<Rightarrow> int" where
  "digits_val base ds = foldl (\<lambda>a c. a * base + digit_val c) 0 ds"

definition digit_char :: "nat \<Rightarrow> char" where
  \<comment> \<open>the character of a digit below ten\<close>
  "digit_char n = ''0123456789'' ! n"

text \<open>The decimal string of a natural number, as \<^verbatim>\<open>Object.keys\<close> names the indices of an array.\<close>

fun string_of_nat :: "nat \<Rightarrow> string" where
  "string_of_nat n =
     (if n < 10 then [digit_char n] else string_of_nat (n div 10) @ [digit_char (n mod 10)])"

text \<open>
  The value of a numeric literal, a ratio of two integers, becomes a number by rounding to
  the nearest binary64 value, to the one with the even significand when two are equally
  near; what rounds to \<open>2\<^sup>1\<^sup>0\<^sup>2\<^sup>4\<close> is an infinity, and what is too small becomes zero.
\<close>

function bit_length :: "int \<Rightarrow> int" where
  "bit_length n = (if n \<le> 0 then 0 else 1 + bit_length (n div 2))"
  by pat_completeness auto
termination
  by (relation "measure nat") auto

definition binary64 :: "int \<Rightarrow> int \<Rightarrow> jsnum" where
  \<comment> \<open>the number nearest to \<open>a / b\<close>, for \<open>0 \<le> a\<close> and \<open>0 < b\<close>\<close>
  "binary64 a b =
     (if a = 0 then Finite 0
      else
        (let d = bit_length a - bit_length b;
             e = (if (if 0 \<le> d then b * 2 ^ nat d \<le> a else b \<le> a * 2 ^ nat (- d)) then d
                  else d - 1);
             s = 52 - max e (- 1022);
             num = (if 0 \<le> s then a * 2 ^ nat s else a);
             den = (if 0 \<le> s then b else b * 2 ^ nat (- s));
             f = num div den;
             r = num mod den;
             n = (if 2 * r < den then f else if den < 2 * r then f + 1
                  else if even f then f else f + 1)
         in if 0 \<le> s then Finite (of_int n / of_int (2 ^ nat s))
            else if 2 ^ 1024 \<le> n * 2 ^ nat (- s) then PosInfinity
            else Finite (of_int (n * 2 ^ nat (- s)))))"

fun negate :: "jsnum \<Rightarrow> jsnum" where
  "negate (Finite q) = Finite (- q)"
| "negate PosInfinity = NegInfinity"
| "negate NegInfinity = PosInfinity"
| "negate NaN = NaN"

definition ExponentPart :: "string \<Rightarrow> int option" where
  \<comment> \<open>what follows the mantissa: nothing, or \<^verbatim>\<open>e\<close>/\<^verbatim>\<open>E\<close>, an optional sign and digits\<close>
  "ExponentPart s =
     (case s of
        [] \<Rightarrow> Some 0
      | c # r \<Rightarrow>
          if c = CHR ''e'' \<or> c = CHR ''E'' then
            (case r of
               [] \<Rightarrow> None
             | d # r' \<Rightarrow>
                 if d = CHR ''+'' then
                   (if r' \<noteq> [] \<and> list_all is_digit r' then Some (digits_val 10 r') else None)
                 else if d = CHR ''-'' then
                   (if r' \<noteq> [] \<and> list_all is_digit r' then Some (- digits_val 10 r') else None)
                 else if list_all is_digit r then Some (digits_val 10 r)
                 else None)
          else None)"

definition StrUnsignedDecimalLiteral :: "string \<Rightarrow> jsnum option" where
  \<comment> \<open>digits, an optional fraction and an optional exponent; \<^verbatim>\<open>Infinity\<close> is handled by the caller\<close>
  "StrUnsignedDecimalLiteral s =
     (let ip = takeWhile is_digit s;
          r1 = dropWhile is_digit s;
          has_dot = (r1 \<noteq> [] \<and> hd r1 = CHR ''.'');
          fp = (if has_dot then takeWhile is_digit (tl r1) else []);
          r2 = (if has_dot then dropWhile is_digit (tl r1) else r1)
      in if ip = [] \<and> fp = [] then None
         else (case ExponentPart r2 of
                 None \<Rightarrow> None
               | Some e \<Rightarrow>
                   (let m = digits_val 10 (ip @ fp); k = e - int (length fp)
                    in Some (if 0 \<le> k then binary64 (m * 10 ^ nat k) 1
                             else binary64 m (10 ^ nat (- k))))))"

definition NonDecimalIntegerLiteral :: "int \<Rightarrow> (char \<Rightarrow> bool) \<Rightarrow> string \<Rightarrow> jsnum" where
  "NonDecimalIntegerLiteral base ok ds =
     (if ds \<noteq> [] \<and> list_all ok ds then binary64 (digits_val base ds) 1 else NaN)"

text \<open>\<^verbatim>\<open>StringToNumber\<close>: the number a string denotes, \<^verbatim>\<open>NaN\<close> when it is no numeric literal.\<close>

definition StringToNumber :: "string \<Rightarrow> jsnum" where
  "StringToNumber str =
     (let s = trim str in
      if s = [] then Finite 0
      else if s = ''Infinity'' \<or> s = ''+Infinity'' then PosInfinity
      else if s = ''-Infinity'' then NegInfinity
      else if take 2 s = ''0x'' \<or> take 2 s = ''0X'' then NonDecimalIntegerLiteral 16 is_hex (drop 2 s)
      else if take 2 s = ''0o'' \<or> take 2 s = ''0O'' then NonDecimalIntegerLiteral 8 is_octal (drop 2 s)
      else if take 2 s = ''0b'' \<or> take 2 s = ''0B'' then NonDecimalIntegerLiteral 2 is_binary (drop 2 s)
      else if hd s = CHR ''+'' then
        (case StrUnsignedDecimalLiteral (tl s) of None \<Rightarrow> NaN | Some n \<Rightarrow> n)
      else if hd s = CHR ''-'' then
        (case StrUnsignedDecimalLiteral (tl s) of None \<Rightarrow> NaN | Some n \<Rightarrow> negate n)
      else (case StrUnsignedDecimalLiteral s of None \<Rightarrow> NaN | Some n \<Rightarrow> n))"

subsection \<open>Objects: keys, reading and writing a property\<close>

definition array_index :: "string \<Rightarrow> int option" where
  \<comment> \<open>a property name that is the canonical decimal string of an integer below \<open>2\<^sup>3\<^sup>2 - 1\<close>\<close>
  "array_index k =
     (if k = ''0'' then Some 0
      else if k \<noteq> [] \<and> list_all is_digit k \<and> hd k \<noteq> CHR ''0''
              \<and> digits_val 10 k \<le> 4294967294
      then Some (digits_val 10 k) else None)"

text \<open>\<^verbatim>\<open>Object.keys(v)\<close>, called by the program on objects and arrays only.\<close>

fun Object_keys :: "jsval \<Rightarrow> string list" where
  "Object_keys (JObj p kvs) = map fst kvs"
| "Object_keys (JArr xs) = map string_of_nat [0..<length xs]"
| "Object_keys v = []"

text \<open>
  The names of the function-valued properties of \<^verbatim>\<open>Object.prototype\<close> and of
  \<^verbatim>\<open>Array.prototype\<close>. Besides them \<^verbatim>\<open>Object.prototype\<close> has the accessor \<^verbatim>\<open>__proto__\<close>,
  and \<^verbatim>\<open>Array.prototype\<close>, an empty array itself, has the \<^verbatim>\<open>length\<close> \<open>0\<close>.
\<close>

definition Object_prototype_functions :: "string list" where
  "Object_prototype_functions =
     [''constructor'', ''hasOwnProperty'', ''isPrototypeOf'', ''propertyIsEnumerable'',
      ''toLocaleString'', ''toString'', ''valueOf'', ''__defineGetter__'', ''__defineSetter__'',
      ''__lookupGetter__'', ''__lookupSetter__'']"

definition Array_prototype_functions :: "string list" where
  "Array_prototype_functions =
     [''constructor'', ''at'', ''concat'', ''copyWithin'', ''entries'', ''every'', ''fill'',
      ''filter'', ''find'', ''findIndex'', ''findLast'', ''findLastIndex'', ''flat'', ''flatMap'',
      ''forEach'', ''includes'', ''indexOf'', ''join'', ''keys'', ''lastIndexOf'', ''map'', ''pop'',
      ''push'', ''reduce'', ''reduceRight'', ''reverse'', ''shift'', ''slice'', ''some'', ''sort'',
      ''splice'', ''toLocaleString'', ''toReversed'', ''toSorted'', ''toSpliced'', ''toString'',
      ''unshift'', ''values'', ''with'']"

text \<open>
  The prototype of an object. It is asked of the receiver of a property read, which in this
  program is a row or a record, never a function.
\<close>

fun prototype_of :: "jsval \<Rightarrow> jsval" where
  "prototype_of (JObj p kvs) = p"
| "prototype_of (JArr xs) = JArrayPrototype"
| "prototype_of JArrayPrototype = JObjectPrototype"
| "prototype_of v = JNull"

text \<open>
  What a read of the property \<open>k\<close> finds on the two prototypes. The getter of \<^verbatim>\<open>__proto__\<close>
  answers with the prototype of the object that was read, the receiver.
\<close>

definition from_Object_prototype :: "jsval \<Rightarrow> string \<Rightarrow> jsval" where
  "from_Object_prototype receiver k =
     (if k = ''__proto__'' then prototype_of receiver
      else if k \<in> set Object_prototype_functions then JFunction (''Object.prototype.'' @ k)
      else JUndefined)"

definition from_Array_prototype :: "jsval \<Rightarrow> string \<Rightarrow> jsval" where
  "from_Array_prototype receiver k =
     (if k = ''length'' then JNum (Finite 0)
      else if k \<in> set Array_prototype_functions then JFunction (''Array.prototype.'' @ k)
      else from_Object_prototype receiver k)"

text \<open>
  The read of \<open>k\<close> that started at the receiver and has come to the object \<open>holder\<close> on its
  prototype chain: the holder's own property, or else what the rest of the chain has.
\<close>

fun lookup :: "jsval \<Rightarrow> jsval \<Rightarrow> string \<Rightarrow> jsval" where
  "lookup receiver (JObj p kvs) k =
     (case map_of kvs k of Some v \<Rightarrow> v | None \<Rightarrow> lookup receiver p k)"
| "lookup receiver (JArr xs) k =
     (case array_index k of
        Some i \<Rightarrow> if i < int (length xs) then xs ! nat i else from_Array_prototype receiver k
      | None \<Rightarrow>
          if k = ''length'' then JNum (Finite (of_nat (length xs)))
          else from_Array_prototype receiver k)"
| "lookup receiver JArrayPrototype k = from_Array_prototype receiver k"
| "lookup receiver JObjectPrototype k = from_Object_prototype receiver k"
| "lookup receiver v k = JUndefined"

text \<open>
  \<^verbatim>\<open>v[k]\<close> for a value \<open>v\<close> that is neither \<^verbatim>\<open>null\<close> nor \<^verbatim>\<open>undefined\<close>. The program reads
  properties of rows, which are objects, and, in the handler, the four properties
  \<^verbatim>\<open>results\<close>, \<^verbatim>\<open>sql_query\<close>, \<^verbatim>\<open>latency\<close> and \<^verbatim>\<open>detail\<close> of the decoded body, which no
  string, number or boolean has. It never reads a property of a function.
\<close>

fun Get :: "jsval \<Rightarrow> string \<Rightarrow> jsval" where
  "Get (JStr s) k =
     (case array_index k of
        Some i \<Rightarrow> if i < int (length s) then JStr [s ! nat i] else JUndefined
      | None \<Rightarrow> if k = ''length'' then JNum (Finite (of_nat (length s))) else JUndefined)"
| "Get v k = lookup v v k"

text \<open>\<^verbatim>\<open>v.k\<close> for any value: reading a property of \<^verbatim>\<open>null\<close> or \<^verbatim>\<open>undefined\<close> throws.\<close>

definition member :: "jsval \<Rightarrow> string \<Rightarrow> js_error + jsval" where
  "member v k = (if v = JUndefined \<or> v = JNull then Inl TypeError else Inr (Get v k))"

text \<open>
  \<^verbatim>\<open>Number(v)\<close> (\<^verbatim>\<open>ToNumber\<close>) of an object asks for a primitive, first from \<^verbatim>\<open>valueOf\<close>, then
  from \<^verbatim>\<open>toString\<close>. The \<^verbatim>\<open>valueOf\<close> of \<^verbatim>\<open>Object.prototype\<close> answers with the object
  itself, which is none, so all rests on \<^verbatim>\<open>toString\<close>: when the object has no callable
  one (a decoded object with a field named \<^verbatim>\<open>toString\<close>, or an object without prototype),
  the conversion throws a \<^verbatim>\<open>TypeError\<close>. Otherwise a plain object, a function and
  \<^verbatim>\<open>Object.prototype\<close> become a string that is no numeric literal, and an array becomes its
  elements joined by commas (\<^verbatim>\<open>null\<close> and \<^verbatim>\<open>undefined\<close> as the empty string), which is a
  literal only when the array has at most one element. A number printed and read back is
  the same number. The functions that the program can meet as \<^verbatim>\<open>toString\<close> are built-in
  ones that answer with such a string.
\<close>

text \<open>
  Whether \<^verbatim>\<open>ToString(v)\<close> throws, for \<open>v\<close> an element of an array being joined: an object
  without a callable \<^verbatim>\<open>toString\<close> does, and so does an array with such an element.
\<close>

fun ToString_throws :: "jsval \<Rightarrow> bool" where
  "ToString_throws (JObj p kvs) = (\<not> IsCallable (lookup (JObj p kvs) (JObj p kvs) ''toString''))"
| "ToString_throws (JArr []) = False"
| "ToString_throws (JArr (x # xs)) = (ToString_throws x \<or> ToString_throws (JArr xs))"
| "ToString_throws v = False"

text \<open>The number that the string of \<open>v\<close> denotes, for \<open>v\<close> an array or an element joined alone.\<close>

fun joined_number :: "jsval \<Rightarrow> jsnum" where
  "joined_number JUndefined = Finite 0"
| "joined_number JNull = Finite 0"
| "joined_number (JBool b) = NaN"
| "joined_number (JNum n) = n"
| "joined_number (JStr s) = StringToNumber s"
| "joined_number (JObj p kvs) = NaN"
| "joined_number (JFunction f) = NaN"
| "joined_number JObjectPrototype = NaN"
| "joined_number JArrayPrototype = Finite 0"
| "joined_number (JArr []) = Finite 0"
| "joined_number (JArr [x]) = joined_number x"
| "joined_number (JArr (x # y # zs)) = NaN"

fun Number :: "jsval \<Rightarrow> js_error + jsnum" where
  "Number JUndefined = Inr NaN"
| "Number JNull = Inr (Finite 0)"
| "Number (JBool b) = Inr (if b then Finite 1 else Finite 0)"
| "Number (JNum n) = Inr n"
| "Number (JStr s) = Inr (StringToNumber s)"
| "Number (JObj p kvs) = (if ToString_throws (JObj p kvs) then Inl TypeError else Inr NaN)"
| "Number (JArr xs) = (if ToString_throws (JArr xs) then Inl TypeError
                      else Inr (joined_number (JArr xs)))"
| "Number (JFunction f) = Inr NaN"
| "Number JObjectPrototype = Inr NaN"
| "Number JArrayPrototype = Inr (Finite 0)"

text \<open>
  \<^verbatim>\<open>entry[k] = v\<close> on a record \<^verbatim>\<open>entry\<close>. An own property keeps its place and takes the
  value. A new own property goes after the others, except that array indices stay in
  front, in ascending order. But an assignment to \<^verbatim>\<open>__proto__\<close>, when the record has no own
  property of that name and its prototype chain leads to the accessor of
  \<^verbatim>\<open>Object.prototype\<close>, calls the setter: it creates no property; it replaces the prototype
  when the value is an object or \<^verbatim>\<open>null\<close> and does nothing otherwise.
\<close>

fun insert_index :: "int \<Rightarrow> string \<Rightarrow> jsval \<Rightarrow> (string \<times> jsval) list \<Rightarrow> (string \<times> jsval) list" where
  "insert_index i k v [] = [(k, v)]"
| "insert_index i k v ((k', v') # r) =
     (case array_index k' of
        Some j \<Rightarrow> if j < i then (k', v') # insert_index i k v r else (k, v) # (k', v') # r
      | None \<Rightarrow> (k, v) # (k', v') # r)"

definition put_own :: "(string \<times> jsval) list \<Rightarrow> string \<Rightarrow> jsval \<Rightarrow> (string \<times> jsval) list" where
  "put_own kvs k v =
     (if k \<in> set (map fst kvs) then map (\<lambda>(k', v'). if k' = k then (k', v) else (k', v')) kvs
      else (case array_index k of
              Some i \<Rightarrow> insert_index i k v kvs
            | None \<Rightarrow> kvs @ [(k, v)]))"

fun setter_on_chain :: "jsval \<Rightarrow> bool" where
  "setter_on_chain (JObj p kvs) = (if ''__proto__'' \<in> set (map fst kvs) then False
                                   else setter_on_chain p)"
| "setter_on_chain (JArr xs) = True"
| "setter_on_chain JArrayPrototype = True"
| "setter_on_chain JObjectPrototype = True"
| "setter_on_chain v = False"

fun Put :: "jsval \<Rightarrow> string \<Rightarrow> jsval \<Rightarrow> jsval" where
  "Put (JObj p kvs) k v =
     (if k = ''__proto__'' \<and> ''__proto__'' \<notin> set (map fst kvs) \<and> setter_on_chain p
      then (if is_object v \<or> v = JNull then JObj v kvs else JObj p kvs)
      else JObj p (put_own kvs k v))"
| "Put entry k v = entry"

section \<open>ChartPreview\<close>

record chart_structure =
  xKey :: string
  yKeys :: "string list"

text \<open>The test \<^verbatim>\<open>row && typeof row === "object"\<close> of \<^verbatim>\<open>data.find\<close> and \<^verbatim>\<open>data.filter\<close>.\<close>

definition object_row :: "jsval \<Rightarrow> bool" where
  "object_row row = (ToBoolean row \<and> typeof row = ''object'')"

text \<open>
  The memoised \<^verbatim>\<open>chartStructure\<close>; \<open>None\<close> is the \<^verbatim>\<open>null\<close> it returns for "no chart".
  The first case distinction is \<^verbatim>\<open>Array.isArray(data)\<close>.
\<close>

definition chartStructure :: "jsval \<Rightarrow> chart_structure option" where
  "chartStructure data =
     (case data of
        JArr rows \<Rightarrow>
          if length rows = 0 then None
          else (case find object_row rows of
                  None \<Rightarrow> None
                | Some sample \<Rightarrow>
                    (let possibleKeys = Object_keys sample in
                     if length possibleKeys = 0 then None
                     else (case find (\<lambda>key. typeof (Get sample key) \<in> set [''string'', ''number''])
                                  possibleKeys of
                             None \<Rightarrow> None
                           | Some xk \<Rightarrow>
                               if \<not> ToBoolean (JStr xk) then None
                               else (let yks = filter (\<lambda>key.
                                           if key = xk then False
                                           else typeof (Get sample key) = ''number''
                                                \<and> Number_isFinite (Get sample key))
                                         possibleKeys
                                     in if length yks = 0 then None
                                        else Some \<lparr>xKey = xk, yKeys = yks\<rparr>))))
      | _ \<Rightarrow> None)"

text \<open>
  The \<^verbatim>\<open>forEach\<close> over the value keys in the \<^verbatim>\<open>map\<close> callback of \<^verbatim>\<open>sanitized\<close>: each key
  in turn is assigned the number its value coerces to, or \<^verbatim>\<open>null\<close>; a coercion that throws
  ends the whole computation.
\<close>

fun fill :: "jsval \<Rightarrow> jsval \<Rightarrow> string list \<Rightarrow> js_error + jsval" where
  "fill row entry [] = Inr entry"
| "fill row entry (key # keys) =
     (case Number (Get row key) of
        Inl e \<Rightarrow> Inl e
      | Inr value \<Rightarrow>
          fill row (Put entry key (if Number_isFinite (JNum value) then JNum value else JNull)) keys)"

text \<open>The record that the callback builds for one row, starting from \<^verbatim>\<open>{}\<close>.\<close>

definition entry_of :: "chart_structure \<Rightarrow> jsval \<Rightarrow> js_error + jsval" where
  "entry_of cs row =
     (case fill row (JObj JObjectPrototype []) (yKeys cs) of
        Inl e \<Rightarrow> Inl e
      | Inr entry \<Rightarrow> Inr (Put entry (xKey cs) (Get row (xKey cs))))"

text \<open>\<^verbatim>\<open>rows.map(f)\<close> for a callback that may throw.\<close>

fun map_rows :: "(jsval \<Rightarrow> js_error + jsval) \<Rightarrow> jsval list \<Rightarrow> js_error + jsval list" where
  "map_rows f [] = Inr []"
| "map_rows f (row # rows) =
     (case f row of
        Inl e \<Rightarrow> Inl e
      | Inr entry \<Rightarrow> (case map_rows f rows of Inl e \<Rightarrow> Inl e | Inr entries \<Rightarrow> Inr (entry # entries)))"

definition sanitize :: "chart_structure \<Rightarrow> jsval list \<Rightarrow> js_error + jsval list" where
  "sanitize cs rows = map_rows (entry_of cs) (filter object_row rows)"

text \<open>
  The memoised \<^verbatim>\<open>sanitized\<close>. When \<^verbatim>\<open>chartStructure\<close> is not \<^verbatim>\<open>null\<close> the data is an
  array, so the last branch is never taken.
\<close>

definition sanitized :: "jsval \<Rightarrow> js_error + jsval list" where
  "sanitized data =
     (case chartStructure data of
        None \<Rightarrow> Inr []
      | Some cs \<Rightarrow> (case data of JArr rows \<Rightarrow> sanitize cs rows | _ \<Rightarrow> Inr []))"

section \<open>The query handler of App\<close>

text \<open>The six \<^verbatim>\<open>useState\<close> cells of \<^verbatim>\<open>App\<close>. A setter stores whatever value it is given.\<close>

record ui_state =
  query :: string
  sqlOutput :: jsval
  latency :: jsval
  chartData :: jsval
  isLoading :: bool
  error :: jsval

definition initial_state :: ui_state where
  "initial_state =
     \<lparr>query = [], sqlOutput = JStr [], latency = JNull, chartData = JNull,
      isLoading = False, error = JStr []\<rparr>"

text \<open>
  What \<^verbatim>\<open>handleQuery\<close> does to the outside, in order: the setter calls and the one
  \<^verbatim>\<open>fetch\<close>, a POST to \<^verbatim>\<open>/process_query/\<close> whose body holds the question.
\<close>

datatype event =
    SetError jsval
  | SetIsLoading bool
  | Fetch string
  | SetSqlOutput jsval
  | SetLatency jsval
  | SetChartData jsval

text \<open>
  What the network gives back to the two \<^verbatim>\<open>await\<close>s: the promise of \<^verbatim>\<open>fetch\<close> rejects
  (network error, timeout of the connection), the promise of \<^verbatim>\<open>response.json()\<close> rejects
  (the body is no JSON), the body is decoded, or nothing ever settles.
\<close>

datatype fetch_result = NeverSettles | FetchRejected | JsonRejected | JsonBody jsval

text \<open>
  The statements of the \<^verbatim>\<open>try\<close> block after \<^verbatim>\<open>data\<close> is there: the setter calls made, and
  the exception when a member access throws.
\<close>

definition try_block :: "jsval \<Rightarrow> event list \<times> js_error option" where
  "try_block data =
     (case member data ''results'' of
        Inl e \<Rightarrow> ([], Some e)
      | Inr results \<Rightarrow>
          if ToBoolean results then
            (case member data ''sql_query'' of
               Inl e \<Rightarrow> ([], Some e)
             | Inr sql_query \<Rightarrow>
                 (case member data ''latency'' of
                    Inl e \<Rightarrow> ([SetSqlOutput sql_query], Some e)
                  | Inr lat \<Rightarrow>
                      (let lat' = (if lat = JUndefined \<or> lat = JNull then JNull else lat) in
                       case member data ''results'' of
                         Inl e \<Rightarrow> ([SetSqlOutput sql_query, SetLatency lat'], Some e)
                       | Inr results' \<Rightarrow>
                           ([SetSqlOutput sql_query, SetLatency lat', SetChartData results'],
                            None))))
          else
            (case member data ''detail'' of
               Inl e \<Rightarrow>
                 ([SetSqlOutput (JStr ''Error generating SQL query''), SetLatency JNull,
                   SetChartData JNull], Some e)
             | Inr detail \<Rightarrow>
                 ([SetSqlOutput (JStr ''Error generating SQL query''), SetLatency JNull,
                   SetChartData JNull,
                   SetError (if ToBoolean detail then detail
                             else JStr ''Unable to generate SQL query.'')], None)))"

definition catch_block :: "event list" where
  "catch_block =
     [SetSqlOutput (JStr []), SetLatency JNull, SetChartData JNull,
      SetError (JStr ''There was a problem connecting to the server.'')]"

text \<open>The events of one call of \<^verbatim>\<open>handleQuery\<close> in state \<open>s\<close> when the network answers \<open>r\<close>.\<close>

definition handleQuery_events :: "ui_state \<Rightarrow> fetch_result \<Rightarrow> event list" where
  "handleQuery_events s r =
     (if trim (query s) = [] then []
      else [SetError (JStr []), SetIsLoading True, Fetch (query s)] @
        (case r of
           NeverSettles \<Rightarrow> []
         | FetchRejected \<Rightarrow> catch_block @ [SetIsLoading False]
         | JsonRejected \<Rightarrow> catch_block @ [SetIsLoading False]
         | JsonBody data \<Rightarrow>
             (case try_block data of
                (evs, None) \<Rightarrow> evs @ [SetIsLoading False]
              | (evs, Some e) \<Rightarrow> evs @ catch_block @ [SetIsLoading False])))"

fun apply_event :: "ui_state \<Rightarrow> event \<Rightarrow> ui_state" where
  "apply_event s (SetError v) = s\<lparr>error := v\<rparr>"
| "apply_event s (SetIsLoading b) = s\<lparr>isLoading := b\<rparr>"
| "apply_event s (Fetch q) = s"
| "apply_event s (SetSqlOutput v) = s\<lparr>sqlOutput := v\<rparr>"
| "apply_event s (SetLatency v) = s\<lparr>latency := v\<rparr>"
| "apply_event s (SetChartData v) = s\<lparr>chartData := v\<rparr>"

text \<open>The state after one call of \<^verbatim>\<open>handleQuery\<close>.\<close>

definition handleQuery :: "ui_state \<Rightarrow> fetch_result \<Rightarrow> ui_state" where
  "handleQuery s r = foldl apply_event s (handleQuery_events s r)"


section \<open>The specification's reading of the inferer, and what a sanitized record is\<close>

text \<open>
  The inference as the specification words it: no chart when the input is not a non-empty
  array, when no row is a non-null object, when the first such row has no field whose value is
  a string or a number, or when no other field of that row holds a finite number; otherwise
  the first such field is the category key and every other field holding a finite number is
  a value key, in the row's own order.
\<close>

definition non_null_object :: "jsval \<Rightarrow> bool" where
  "non_null_object v =
     (case v of
        JObj p kvs \<Rightarrow> True
      | JArr xs \<Rightarrow> True
      | JObjectPrototype \<Rightarrow> True
      | JArrayPrototype \<Rightarrow> True
      | _ \<Rightarrow> False)"

definition string_or_number :: "jsval \<Rightarrow> bool" where
  "string_or_number v = (case v of JStr s \<Rightarrow> True | JNum n \<Rightarrow> True | _ \<Rightarrow> False)"

definition chartStructure_spec :: "jsval \<Rightarrow> chart_structure option" where
  "chartStructure_spec data =
     (case data of
        JArr rows \<Rightarrow>
          (case find non_null_object rows of
             None \<Rightarrow> None
           | Some sample \<Rightarrow>
               (case find (\<lambda>key. string_or_number (Get sample key)) (Object_keys sample) of
                  None \<Rightarrow> None
                | Some c \<Rightarrow>
                    (let vs = filter (\<lambda>key. key \<noteq> c \<and> Number_isFinite (Get sample key))
                                (Object_keys sample)
                     in if vs = [] then None else Some \<lparr>xKey = c, yKeys = vs\<rparr>)))
      | _ \<Rightarrow> None)"

text \<open>
  The value the specification puts under a value key: the number the row's value coerces to
  when that is finite, and \<^verbatim>\<open>null\<close> otherwise.
\<close>

definition coerced :: "jsval \<Rightarrow> jsval" where
  "coerced v = (case Number v of Inr (Finite q) \<Rightarrow> JNum (Finite q) | _ \<Rightarrow> JNull)"

text \<open>
  A sanitized record of a row: a plain object with exactly the category key and the value
  keys, holding the row's own value under the category key and the coerced value under each
  value key.
\<close>

definition sanitized_record :: "chart_structure \<Rightarrow> jsval \<Rightarrow> jsval \<Rightarrow> bool" where
  "sanitized_record cs row entry =
     (case entry of
        JObj p e \<Rightarrow>
          p = JObjectPrototype
          \<and> distinct (map fst e)
          \<and> set (map fst e) = insert (xKey cs) (set (yKeys cs))
          \<and> map_of e (xKey cs) = Some (Get row (xKey cs))
          \<and> (\<forall>key \<in> set (yKeys cs). map_of e key = Some (coerced (Get row key)))
      | _ \<Rightarrow> False)"

text \<open>
  The record that the callback builds when no coercion throws and no key is \<^verbatim>\<open>__proto__\<close>:
  every assignment then writes an own property.
\<close>

definition plain_entry :: "chart_structure \<Rightarrow> jsval \<Rightarrow> jsval" where
  "plain_entry cs row =
     JObj JObjectPrototype
       (put_own (foldl (\<lambda>e key. put_own e key (coerced (Get row key))) [] (yKeys cs))
          (xKey cs) (Get row (xKey cs)))"

text \<open>The same record with every \<^verbatim>\<open>null\<close> under one of the given keys replaced by \<open>0\<close>.\<close>

definition null_to_zero :: "string list \<Rightarrow> jsval \<Rightarrow> jsval" where
  "null_to_zero keys entry =
     (case entry of
        JObj p e \<Rightarrow>
          JObj p (map (\<lambda>(k, v). (k, if k \<in> set keys \<and> v = JNull then JNum (Finite 0) else v)) e)
      | _ \<Rightarrow> entry)"

section \<open>Sample inputs\<close>

text \<open>The rows \<^verbatim>\<open>[{"name":"A","value":5},{"name":"B","value":"oops"}]\<close>.\<close>

definition sample_rows :: jsval where
  "sample_rows =
     JArr [JObj JObjectPrototype [(''name'', JStr ''A''), (''value'', JNum (Finite 5))],
           JObj JObjectPrototype [(''name'', JStr ''B''), (''value'', JStr ''oops'')]]"

text \<open>The rows \<^verbatim>\<open>[{"__proto__":"A","v":1}]\<close>, as \<^verbatim>\<open>JSON.parse\<close> gives them: the field is an own one.\<close>

definition proto_rows :: jsval where
  "proto_rows = JArr [JObj JObjectPrototype [(''__proto__'', JStr ''A''), (''v'', JNum (Finite 1))]]"

text \<open>The rows \<^verbatim>\<open>[{"name":"A","v":1},{"name":"B","v":{"toString":1}}]\<close>.\<close>

definition uncallable_rows :: jsval where
  "uncallable_rows =
     JArr [JObj JObjectPrototype [(''name'', JStr ''A''), (''v'', JNum (Finite 1))],
           JObj JObjectPrototype
             [(''name'', JStr ''B''),
              (''v'', JObj JObjectPrototype [(''toString'', JNum (Finite 1))])]]"

text \<open>
  The response \<^verbatim>\<open>{"results":[{"region":"west","sales":10},{"region":"east","sales":20}],
  "sql_query":"SELECT ...","latency":{"total_time":0.5}}\<close>.
\<close>

definition sample_response :: jsval where
  "sample_response =
     JObj JObjectPrototype
       [(''results'',
         JArr [JObj JObjectPrototype [(''region'', JStr ''west''), (''sales'', JNum (Finite 10))],
               JObj JObjectPrototype [(''region'', JStr ''east''), (''sales'', JNum (Finite 20))]]),
        (''sql_query'', JStr ''SELECT ...''),
        (''latency'', JObj JObjectPrototype [(''total_time'', JNum (Finite (1 / 2)))])]"

text \<open>The response \<^verbatim>\<open>{"detail":"no such table"}\<close>.\<close>

definition detail_response :: jsval where
  "detail_response = JObj JObjectPrototype [(''detail'', JStr ''no such table'')]"

text \<open>The response \<^verbatim>\<open>{"results":0,"sql_query":"SELECT 1"}\<close>: its results are not null.\<close>

definition zero_results_response :: jsval where
  "zero_results_response =
     JObj JObjectPrototype [(''results'', JNum (Finite 0)), (''sql_query'', JStr ''SELECT 1'')]"

text \<open>The response \<^verbatim>\<open>{"results":[],"sql_query":"SELECT 2"}\<close>.\<close>

definition empty_results_response :: jsval where
  "empty_results_response =
     JObj JObjectPrototype [(''results'', JArr []), (''sql_query'', JStr ''SELECT 2'')]"

text \<open>A state in which the user has typed a question, and one with a blank question.\<close>

definition asking :: ui_state where
  "asking = initial_state\<lparr>query := ''top sales by region''\<rparr>"

definition blank :: ui_state where
  "blank = initial_state\<lparr>query := ''   ''\<rparr>"

section \<open>Facts about the values\<close>

text \<open>Literals are rounded to binary64: to the even neighbour at a tie, exactly when they fit.\<close>

lemma literal_rounding:
  "StringToNumber ''9007199254740993'' = Finite 9007199254740992
   \<and> StringToNumber ''9007199254740995'' = Finite 9007199254740996
   \<and> StringToNumber ''0.1'' = Finite (3602879701896397 / 36028797018963968)
   \<and> StringToNumber '' 2.50 '' = Finite (5 / 2)
   \<and> StringToNumber ''-0x1F'' = NaN
   \<and> StringToNumber ''0x1F'' = Finite 31
   \<and> StringToNumber ''oops'' = NaN"
  by code_simp

lemma literal_overflow: "StringToNumber ''1e400'' = PosInfinity"
  by code_simp

lemma literal_underflow: "StringToNumber ''-1e-400'' = Finite 0"
  by code_simp

text \<open>Coercion keeps a finite number and reads \<^verbatim>\<open>null\<close> as zero.\<close>

lemma Number_finite: "Number (JNum (Finite q)) = Inr (Finite q)"
  by simp

lemma Number_null: "Number JNull = Inr (Finite 0)"
  by simp

text \<open>
  A decoded object coerces to \<^verbatim>\<open>NaN\<close> unless it has a field named \<^verbatim>\<open>toString\<close>; then, the
  field's value being no function, the coercion throws.
\<close>

lemma Number_decoded_object:
  "Number (JObj JObjectPrototype kvs) =
     (if ''toString'' \<in> fst ` set kvs \<and> \<not> IsCallable (the (map_of kvs ''toString''))
      then Inl TypeError else Inr NaN)"
proof (cases "map_of kvs ''toString''")
  case None
  then have "''toString'' \<notin> fst ` set kvs"
    by (simp add: map_of_eq_None_iff)
  with None show ?thesis
    by (simp add: from_Object_prototype_def Object_prototype_functions_def)
next
  case (Some v)
  then have "map_of kvs ''toString'' \<noteq> None"
    by simp
  then have "''toString'' \<in> fst ` set kvs"
    by (simp add: map_of_eq_None_iff)
  with Some show ?thesis
    by simp
qed

section \<open>Facts about the query handler\<close>

lemma member_defined:
  "data \<noteq> JUndefined \<Longrightarrow> data \<noteq> JNull \<Longrightarrow> member data k = Inr (Get data k)"
  by (simp add: member_def)

lemma truthy_property_defined:
  "ToBoolean (Get data k) \<Longrightarrow> data \<noteq> JUndefined \<and> data \<noteq> JNull"
  by (cases data) auto

lemma try_block_success:
  assumes "ToBoolean (Get data ''results'')"
  shows "try_block data =
    ([SetSqlOutput (Get data ''sql_query''),
      SetLatency (if Get data ''latency'' = JUndefined \<or> Get data ''latency'' = JNull then JNull
                  else Get data ''latency''),
      SetChartData (Get data ''results'')], None)"
proof -
  from assms have "data \<noteq> JUndefined" "data \<noteq> JNull"
    using truthy_property_defined by blast+
  then have m: "\<And>k. member data k = Inr (Get data k)"
    by (simp add: member_defined)
  show ?thesis
    using assms by (simp add: try_block_def m Let_def)
qed

lemma try_block_failure:
  assumes "data \<noteq> JUndefined" "data \<noteq> JNull" "\<not> ToBoolean (Get data ''results'')"
  shows "try_block data =
    ([SetSqlOutput (JStr ''Error generating SQL query''), SetLatency JNull, SetChartData JNull,
      SetError (if ToBoolean (Get data ''detail'') then Get data ''detail''
                else JStr ''Unable to generate SQL query.'')], None)"
proof -
  from assms have m: "\<And>k. member data k = Inr (Get data k)"
    by (simp add: member_defined)
  show ?thesis
    using assms(3) by (simp add: try_block_def m)
qed

text \<open>A body that is \<^verbatim>\<open>null\<close> makes \<^verbatim>\<open>data.results\<close> throw before any setter is called.\<close>

lemma try_block_throws:
  assumes "data = JUndefined \<or> data = JNull"
  shows "try_block data = ([], Some TypeError)"
  using assms by (auto simp: try_block_def member_def)

lemma try_block_cases:
  "try_block data = ([], Some TypeError)
   \<or> (\<exists>a b c. try_block data = ([SetSqlOutput a, SetLatency b, SetChartData c], None))
   \<or> (\<exists>a b c d. try_block data = ([SetSqlOutput a, SetLatency b, SetChartData c, SetError d], None))"
proof (cases "data = JUndefined \<or> data = JNull")
  case True
  then show ?thesis by (simp add: try_block_throws)
next
  case False
  then show ?thesis
    by (cases "ToBoolean (Get data ''results'')") (simp_all add: try_block_success try_block_failure)
qed

lemma asking_not_blank: "trim (query asking) \<noteq> []"
  by code_simp

section \<open>The claims about the query handler\<close>

text \<open>
  C3, as the specification states it, does not hold: a response without usable results does
  not clear the SQL text. After \<^verbatim>\<open>{"detail":"no such table"}\<close> the SQL text is the fixed
  message \<^verbatim>\<open>Error generating SQL query\<close>, not the empty string.
\<close>

theorem detail_response_keeps_sql_message:
  "sqlOutput (handleQuery asking (JsonBody detail_response)) = JStr ''Error generating SQL query''
   \<and> sqlOutput (handleQuery asking (JsonBody detail_response)) \<noteq> JStr []
   \<and> chartData (handleQuery asking (JsonBody detail_response)) = JNull
   \<and> error (handleQuery asking (JsonBody detail_response)) = JStr ''no such table''"
  by code_simp

text \<open>
  C3, amended: for a question that is not blank and a decoded body other than \<^verbatim>\<open>null\<close>
  whose \<^verbatim>\<open>results\<close> are absent or falsy, the handler sets the SQL text to the fixed message
  \<^verbatim>\<open>Error generating SQL query\<close>, sets latency and chart data to \<^verbatim>\<open>null\<close>, sets the error
  to the body's \<^verbatim>\<open>detail\<close> when that is truthy and to \<^verbatim>\<open>Unable to generate SQL query.\<close>
  otherwise, and ends with loading off.
\<close>

theorem unusable_results_state:
  assumes "trim (query s) \<noteq> []" and "data \<noteq> JUndefined" and "data \<noteq> JNull"
    and "\<not> ToBoolean (Get data ''results'')"
  shows "handleQuery s (JsonBody data) =
    s\<lparr>sqlOutput := JStr ''Error generating SQL query'', latency := JNull, chartData := JNull,
      error := (if ToBoolean (Get data ''detail'') then Get data ''detail''
                else JStr ''Unable to generate SQL query.''),
      isLoading := False\<rparr>"
  using assms
  by (simp add: handleQuery_def handleQuery_events_def try_block_failure)

theorem unusable_results_state_witness:
  "trim (query asking) \<noteq> [] \<and> detail_response \<noteq> JUndefined \<and> detail_response \<noteq> JNull
   \<and> \<not> ToBoolean (Get detail_response ''results'')
   \<and> handleQuery asking (JsonBody detail_response) =
       \<lparr>query = ''top sales by region'', sqlOutput = JStr ''Error generating SQL query'',
        latency = JNull, chartData = JNull, isLoading = False, error = JStr ''no such table''\<rparr>"
proof -
  have h1: "trim (query asking) \<noteq> []"
    by (rule asking_not_blank)
  have h2: "detail_response \<noteq> JUndefined" and h3: "detail_response \<noteq> JNull"
    by (simp_all add: detail_response_def)
  have h4: "\<not> ToBoolean (Get detail_response ''results'')"
    by code_simp
  have e: "asking\<lparr>sqlOutput := JStr ''Error generating SQL query'', latency := JNull,
        chartData := JNull,
        error := (if ToBoolean (Get detail_response ''detail'') then Get detail_response ''detail''
                  else JStr ''Unable to generate SQL query.''),
        isLoading := False\<rparr> =
      \<lparr>query = ''top sales by region'', sqlOutput = JStr ''Error generating SQL query'',
        latency = JNull, chartData = JNull, isLoading = False, error = JStr ''no such table''\<rparr>"
    by code_simp
  from unusable_results_state [OF h1 h2 h3 h4] e
  have "handleQuery asking (JsonBody detail_response) =
      \<lparr>query = ''top sales by region'', sqlOutput = JStr ''Error generating SQL query'',
        latency = JNull, chartData = JNull, isLoading = False, error = JStr ''no such table''\<rparr>"
    by (rule trans)
  with h1 h2 h3 h4 show ?thesis
    by (intro conjI)
qed

text \<open>
  C4, as the specification states it, does not hold: the handler tests \<^verbatim>\<open>results\<close> for
  truthiness. The response \<^verbatim>\<open>{"results":0,"sql_query":"SELECT 1"}\<close> has results that are
  not \<^verbatim>\<open>null\<close>, yet neither its SQL text nor its results are stored and the error is set.
\<close>

theorem zero_results_not_stored:
  "Get zero_results_response ''results'' \<noteq> JNull
   \<and> Get zero_results_response ''results'' \<noteq> JUndefined
   \<and> sqlOutput (handleQuery asking (JsonBody zero_results_response))
       \<noteq> Get zero_results_response ''sql_query''
   \<and> chartData (handleQuery asking (JsonBody zero_results_response))
       \<noteq> Get zero_results_response ''results''
   \<and> error (handleQuery asking (JsonBody zero_results_response)) \<noteq> JStr []"
  by code_simp

text \<open>
  C4, amended: for a question that is not blank and a response whose \<^verbatim>\<open>results\<close> are truthy
  (any array, also the empty one), the handler stores the response's \<^verbatim>\<open>sql_query\<close> as the
  SQL text, its \<^verbatim>\<open>latency\<close> (\<^verbatim>\<open>null\<close> when absent or \<^verbatim>\<open>null\<close>) as the latency and its
  \<^verbatim>\<open>results\<close> as the chart data, leaves the error empty and ends with loading off.
\<close>

theorem truthy_results_state:
  assumes "trim (query s) \<noteq> []" and "ToBoolean (Get data ''results'')"
  shows "handleQuery s (JsonBody data) =
    s\<lparr>sqlOutput := Get data ''sql_query'',
      latency := (if Get data ''latency'' = JUndefined \<or> Get data ''latency'' = JNull then JNull
                  else Get data ''latency''),
      chartData := Get data ''results'', error := JStr [], isLoading := False\<rparr>"
  using assms
  by (simp add: handleQuery_def handleQuery_events_def try_block_success)

theorem truthy_results_state_witness:
  "trim (query asking) \<noteq> [] \<and> ToBoolean (Get sample_response ''results'')
   \<and> handleQuery asking (JsonBody sample_response) =
       \<lparr>query = ''top sales by region'', sqlOutput = JStr ''SELECT ...'',
        latency = JObj JObjectPrototype [(''total_time'', JNum (Finite (1 / 2)))],
        chartData = JArr [JObj JObjectPrototype [(''region'', JStr ''west''), (''sales'', JNum (Finite 10))],
                          JObj JObjectPrototype [(''region'', JStr ''east''), (''sales'', JNum (Finite 20))]],
        isLoading = False, error = JStr []\<rparr>"
proof -
  have h1: "trim (query asking) \<noteq> []"
    by (rule asking_not_blank)
  have h2: "ToBoolean (Get sample_response ''results'')"
    by code_simp
  have e: "asking\<lparr>sqlOutput := Get sample_response ''sql_query'',
        latency := (if Get sample_response ''latency'' = JUndefined
                      \<or> Get sample_response ''latency'' = JNull then JNull
                    else Get sample_response ''latency''),
        chartData := Get sample_response ''results'', error := JStr [], isLoading := False\<rparr> =
      \<lparr>query = ''top sales by region'', sqlOutput = JStr ''SELECT ...'',
        latency = JObj JObjectPrototype [(''total_time'', JNum (Finite (1 / 2)))],
        chartData = JArr [JObj JObjectPrototype [(''region'', JStr ''west''), (''sales'', JNum (Finite 10))],
                          JObj JObjectPrototype [(''region'', JStr ''east''), (''sales'', JNum (Finite 20))]],
        isLoading = False, error = JStr []\<rparr>"
    by code_simp
  from truthy_results_state [OF h1 h2] e
  have "handleQuery asking (JsonBody sample_response) =
      \<lparr>query = ''top sales by region'', sqlOutput = JStr ''SELECT ...'',
        latency = JObj JObjectPrototype [(''total_time'', JNum (Finite (1 / 2)))],
        chartData = JArr [JObj JObjectPrototype [(''region'', JStr ''west''), (''sales'', JNum (Finite 10))],
                          JObj JObjectPrototype [(''region'', JStr ''east''), (''sales'', JNum (Finite 20))]],
        isLoading = False, error = JStr []\<rparr>"
    by (rule trans)
  with h1 h2 show ?thesis
    by (intro conjI)
qed

text \<open>
  C5: for a question that is not blank and a request that settles, whatever the outcome
  (stored results, handled application error, transport exception), the handler calls
  \<^verbatim>\<open>setIsLoading(false)\<close> exactly once, as its last action, and loading is off afterwards.
\<close>

theorem loading_reset_exactly_once:
  assumes "trim (query s) \<noteq> []" and "r \<noteq> NeverSettles"
  shows "length (filter (\<lambda>e. e = SetIsLoading False) (handleQuery_events s r)) = 1
       \<and> last (handleQuery_events s r) = SetIsLoading False
       \<and> isLoading (handleQuery s r) = False"
proof (cases r)
  case NeverSettles
  with assms(2) show ?thesis by simp
next
  case FetchRejected
  with assms(1) show ?thesis
    by (simp add: handleQuery_def handleQuery_events_def catch_block_def)
next
  case JsonRejected
  with assms(1) show ?thesis
    by (simp add: handleQuery_def handleQuery_events_def catch_block_def)
next
  case (JsonBody data)
  from try_block_cases [of data] show ?thesis
    using assms(1) JsonBody
    by (elim disjE exE) (simp_all add: handleQuery_def handleQuery_events_def catch_block_def)
qed

theorem loading_reset_exactly_once_witness:
  "trim (query asking) \<noteq> []
   \<and> JsonBody sample_response \<noteq> NeverSettles
   \<and> length (filter (\<lambda>e. e = SetIsLoading False)
        (handleQuery_events asking (JsonBody sample_response))) = 1
   \<and> isLoading (handleQuery asking (JsonBody sample_response)) = False
   \<and> length (filter (\<lambda>e. e = SetIsLoading False)
        (handleQuery_events asking (JsonBody detail_response))) = 1
   \<and> isLoading (handleQuery asking (JsonBody detail_response)) = False
   \<and> length (filter (\<lambda>e. e = SetIsLoading False) (handleQuery_events asking FetchRejected)) = 1
   \<and> isLoading (handleQuery asking FetchRejected) = False"
proof -
  note h = asking_not_blank
  have n: "JsonBody sample_response \<noteq> NeverSettles" "JsonBody detail_response \<noteq> NeverSettles"
    "FetchRejected \<noteq> NeverSettles"
    by simp_all
  note a = loading_reset_exactly_once [OF h n(1)]
  note b = loading_reset_exactly_once [OF h n(2)]
  note c = loading_reset_exactly_once [OF h n(3)]
  from h n(1) a b c show ?thesis
    by blast
qed

text \<open>
  C6: for a question that is not blank, when the request fails in transport (the promise of
  \<^verbatim>\<open>fetch\<close> or of \<^verbatim>\<open>response.json()\<close> rejects), the handler sets the SQL text to the empty
  string, latency and chart data to \<^verbatim>\<open>null\<close> and the error to the fixed message
  \<^verbatim>\<open>There was a problem connecting to the server.\<close>, and ends with loading off.
\<close>

theorem transport_failure_state:
  assumes "trim (query s) \<noteq> []" and "r = FetchRejected \<or> r = JsonRejected"
  shows "handleQuery s r =
    s\<lparr>sqlOutput := JStr [], latency := JNull, chartData := JNull,
      error := JStr ''There was a problem connecting to the server.'', isLoading := False\<rparr>"
  using assms by (auto simp: handleQuery_def handleQuery_events_def catch_block_def)

theorem transport_failure_state_witness:
  "trim (query asking) \<noteq> []
   \<and> handleQuery asking JsonRejected =
       asking\<lparr>sqlOutput := JStr [], latency := JNull, chartData := JNull,
         error := JStr ''There was a problem connecting to the server.'', isLoading := False\<rparr>
   \<and> handleQuery asking FetchRejected =
       asking\<lparr>sqlOutput := JStr [], latency := JNull, chartData := JNull,
         error := JStr ''There was a problem connecting to the server.'', isLoading := False\<rparr>"
proof -
  note h = asking_not_blank
  have a: "JsonRejected = FetchRejected \<or> JsonRejected = JsonRejected"
    and b: "FetchRejected = FetchRejected \<or> FetchRejected = JsonRejected"
    by simp_all
  from h transport_failure_state [OF h a] transport_failure_state [OF h b] show ?thesis
    by (intro conjI)
qed

text \<open>
  C7: for a question that is empty or only white space, the handler does nothing: it makes
  no call at all (so no request is sent) and every field of the state stays as it was.
\<close>

theorem blank_question_noop:
  assumes "trim (query s) = []"
  shows "handleQuery_events s r = [] \<and> handleQuery s r = s"
  using assms by (simp add: handleQuery_def handleQuery_events_def)

theorem blank_question_noop_witness:
  "trim (query blank) = [] \<and> trim (query initial_state) = []
   \<and> handleQuery_events blank (JsonBody sample_response) = []
   \<and> handleQuery blank (JsonBody sample_response) = blank
   \<and> handleQuery_events initial_state FetchRejected = []
   \<and> handleQuery initial_state FetchRejected = initial_state"
proof -
  have h1: "trim (query blank) = []" and h2: "trim (query initial_state) = []"
    by code_simp+
  from h1 h2 blank_question_noop [OF h1, of "JsonBody sample_response"]
    blank_question_noop [OF h2, of FetchRejected]
  show ?thesis
    by blast
qed

text \<open>
  C9: the handler branches on the truthiness of \<^verbatim>\<open>results\<close>. The values \<open>0\<close>, the empty
  string, \<^verbatim>\<open>false\<close> and \<^verbatim>\<open>NaN\<close> are present, not \<^verbatim>\<open>null\<close>, and falsy; whenever the
  results are present and falsy the handler takes the application-error branch; when the
  results are the empty array it takes the success branch and stores the empty array.
\<close>

theorem results_tested_for_truthiness:
  assumes "trim (query s) \<noteq> []" and "data \<noteq> JUndefined" and "data \<noteq> JNull"
  shows "(Get data ''results'' \<in> {JNum (Finite 0), JStr [], JBool False, JNum NaN} \<longrightarrow>
            Get data ''results'' \<noteq> JNull \<and> Get data ''results'' \<noteq> JUndefined
            \<and> \<not> ToBoolean (Get data ''results''))
       \<and> (Get data ''results'' \<noteq> JNull \<and> Get data ''results'' \<noteq> JUndefined
            \<and> \<not> ToBoolean (Get data ''results'') \<longrightarrow>
            handleQuery_events s (JsonBody data) =
              [SetError (JStr []), SetIsLoading True, Fetch (query s),
               SetSqlOutput (JStr ''Error generating SQL query''), SetLatency JNull,
               SetChartData JNull,
               SetError (if ToBoolean (Get data ''detail'') then Get data ''detail''
                         else JStr ''Unable to generate SQL query.''),
               SetIsLoading False])
       \<and> (Get data ''results'' = JArr [] \<longrightarrow>
            handleQuery_events s (JsonBody data) =
              [SetError (JStr []), SetIsLoading True, Fetch (query s),
               SetSqlOutput (Get data ''sql_query''),
               SetLatency (if Get data ''latency'' = JUndefined \<or> Get data ''latency'' = JNull
                           then JNull else Get data ''latency''),
               SetChartData (JArr []), SetIsLoading False]
            \<and> chartData (handleQuery s (JsonBody data)) = JArr [])"
proof (intro conjI impI)
  assume "Get data ''results'' \<in> {JNum (Finite 0), JStr [], JBool False, JNum NaN}"
  then show "Get data ''results'' \<noteq> JNull" "Get data ''results'' \<noteq> JUndefined"
    "\<not> ToBoolean (Get data ''results'')"
    by auto
next
  assume "Get data ''results'' \<noteq> JNull \<and> Get data ''results'' \<noteq> JUndefined
    \<and> \<not> ToBoolean (Get data ''results'')"
  then have "\<not> ToBoolean (Get data ''results'')"
    by simp
  with assms show "handleQuery_events s (JsonBody data) =
      [SetError (JStr []), SetIsLoading True, Fetch (query s),
       SetSqlOutput (JStr ''Error generating SQL query''), SetLatency JNull,
       SetChartData JNull,
       SetError (if ToBoolean (Get data ''detail'') then Get data ''detail''
                 else JStr ''Unable to generate SQL query.''),
       SetIsLoading False]"
    by (simp add: handleQuery_events_def try_block_failure)
next
  assume e: "Get data ''results'' = JArr []"
  then have t: "ToBoolean (Get data ''results'')"
    by simp
  from assms(1) e show "handleQuery_events s (JsonBody data) =
      [SetError (JStr []), SetIsLoading True, Fetch (query s),
       SetSqlOutput (Get data ''sql_query''),
       SetLatency (if Get data ''latency'' = JUndefined \<or> Get data ''latency'' = JNull
                   then JNull else Get data ''latency''),
       SetChartData (JArr []), SetIsLoading False]"
    by (simp add: handleQuery_events_def try_block_success [OF t])
  from assms(1) e show "chartData (handleQuery s (JsonBody data)) = JArr []"
    by (simp add: handleQuery_def handleQuery_events_def try_block_success [OF t])
qed

theorem results_tested_for_truthiness_witness:
  "trim (query asking) \<noteq> []
   \<and> Get zero_results_response ''results'' = JNum (Finite 0)
   \<and> handleQuery_events asking (JsonBody zero_results_response) =
       [SetError (JStr []), SetIsLoading True, Fetch (query asking),
        SetSqlOutput (JStr ''Error generating SQL query''), SetLatency JNull,
        SetChartData JNull,
        SetError (if ToBoolean (Get zero_results_response ''detail'')
                  then Get zero_results_response ''detail''
                  else JStr ''Unable to generate SQL query.''),
        SetIsLoading False]
   \<and> Get empty_results_response ''results'' = JArr []
   \<and> chartData (handleQuery asking (JsonBody empty_results_response)) = JArr []"
proof -
  note h = asking_not_blank
  have z: "zero_results_response \<noteq> JUndefined" "zero_results_response \<noteq> JNull"
    and m: "empty_results_response \<noteq> JUndefined" "empty_results_response \<noteq> JNull"
    by (simp_all add: zero_results_response_def empty_results_response_def)
  have rz: "Get zero_results_response ''results'' = JNum (Finite 0)"
    and rm: "Get empty_results_response ''results'' = JArr []"
    by code_simp+
  have inz: "Get zero_results_response ''results''
      \<in> {JNum (Finite 0), JStr [], JBool False, JNum NaN}"
    unfolding rz by simp
  note tz = results_tested_for_truthiness [OF h z]
  note tm = results_tested_for_truthiness [OF h m]
  from tz inz have "Get zero_results_response ''results'' \<noteq> JNull
      \<and> Get zero_results_response ''results'' \<noteq> JUndefined
      \<and> \<not> ToBoolean (Get zero_results_response ''results'')"
    by blast
  with tz have ez: "handleQuery_events asking (JsonBody zero_results_response) =
       [SetError (JStr []), SetIsLoading True, Fetch (query asking),
        SetSqlOutput (JStr ''Error generating SQL query''), SetLatency JNull,
        SetChartData JNull,
        SetError (if ToBoolean (Get zero_results_response ''detail'')
                  then Get zero_results_response ''detail''
                  else JStr ''Unable to generate SQL query.''),
        SetIsLoading False]"
    by blast
  from tm rm have em: "chartData (handleQuery asking (JsonBody empty_results_response)) = JArr []"
    by blast
  from h rz ez rm em show ?thesis
    by (intro conjI)
qed

section \<open>Facts about the inferer\<close>

lemma object_row_iff: "object_row v = non_null_object v"
  by (cases v) (simp_all add: object_row_def non_null_object_def)

lemma typeof_string_or_number:
  "(typeof v = ''string'' \<or> typeof v = ''number'') = string_or_number v"
  by (cases v) (simp_all add: string_or_number_def)

lemma finite_number_iff:
  "(typeof v = ''number'' \<and> Number_isFinite v) = Number_isFinite v"
  by (cases v rule: Number_isFinite.cases) simp_all

lemma find_Some_holds: "find P xs = Some x \<Longrightarrow> x \<in> set xs \<and> P x"
  by (induction xs) (auto split: if_splits)

text \<open>
  The code and the specification's reading agree on every input but one kind: where the
  specification's category key is the empty string, the code infers nothing.
\<close>

lemma chartStructure_vs_spec:
  "chartStructure data =
     (case chartStructure_spec data of
        None \<Rightarrow> None
      | Some cs \<Rightarrow> if xKey cs = [] then None else Some cs)"
proof (cases data)
  case (JArr rows)
  have o: "object_row = non_null_object"
    by (rule ext) (rule object_row_iff)
  show ?thesis
  proof (cases "find non_null_object rows")
    case None
    then show ?thesis
      by (simp add: chartStructure_def chartStructure_spec_def JArr o)
  next
    case sample: (Some sample)
    show ?thesis
    proof (cases "find (\<lambda>key. string_or_number (Get sample key)) (Object_keys sample)")
      case None
      then show ?thesis
        by (simp add: chartStructure_def chartStructure_spec_def JArr o sample
            typeof_string_or_number Let_def)
    next
      case (Some c)
      from sample have "rows \<noteq> []"
        by auto
      moreover from Some have "Object_keys sample \<noteq> []"
        by auto
      ultimately show ?thesis
        using Some
        by (simp add: chartStructure_def chartStructure_spec_def JArr o sample
            typeof_string_or_number finite_number_iff Let_def cong: conj_cong)
    qed
  qed
qed (simp_all add: chartStructure_def chartStructure_spec_def)

lemma chartStructure_SomeD:
  assumes "chartStructure data = Some cs"
  shows "\<exists>rows sample. data = JArr rows \<and> find non_null_object rows = Some sample
    \<and> find (\<lambda>key. string_or_number (Get sample key)) (Object_keys sample) = Some (xKey cs)
    \<and> xKey cs \<noteq> []
    \<and> yKeys cs = filter (\<lambda>key. key \<noteq> xKey cs \<and> Number_isFinite (Get sample key))
          (Object_keys sample)
    \<and> yKeys cs \<noteq> []"
proof -
  from assms have s: "chartStructure_spec data = Some cs" and x: "xKey cs \<noteq> []"
    by (auto simp: chartStructure_vs_spec split: option.splits if_splits)
  from s obtain rows where d: "data = JArr rows"
    by (cases data) (simp_all add: chartStructure_spec_def)
  from s obtain sample where f: "find non_null_object rows = Some sample"
    unfolding chartStructure_spec_def d by (auto split: option.splits)
  from s obtain c where
    c: "find (\<lambda>key. string_or_number (Get sample key)) (Object_keys sample) = Some c"
    unfolding chartStructure_spec_def d by (auto simp: f split: option.splits)
  from s have r: "\<lparr>xKey = c, yKeys = filter (\<lambda>key. key \<noteq> c \<and> Number_isFinite (Get sample key))
                                    (Object_keys sample)\<rparr> = cs"
    and ne: "filter (\<lambda>key. key \<noteq> c \<and> Number_isFinite (Get sample key)) (Object_keys sample) \<noteq> []"
    unfolding chartStructure_spec_def d by (simp_all add: f c Let_def split: if_splits)
  from r have xc: "xKey cs = c"
    and ys: "yKeys cs = filter (\<lambda>key. key \<noteq> c \<and> Number_isFinite (Get sample key))
                          (Object_keys sample)"
    by auto
  show ?thesis
  proof (intro exI conjI)
    show "data = JArr rows" by (rule d)
    show "find non_null_object rows = Some sample" by (rule f)
    show "find (\<lambda>key. string_or_number (Get sample key)) (Object_keys sample) = Some (xKey cs)"
      unfolding xc by (rule c)
    show "xKey cs \<noteq> []" by (rule x)
    show "yKeys cs = filter (\<lambda>key. key \<noteq> xKey cs \<and> Number_isFinite (Get sample key))
            (Object_keys sample)"
      unfolding xc by (rule ys)
    show "yKeys cs \<noteq> []"
      unfolding ys by (rule ne)
  qed
qed

lemma xKey_not_in_yKeys:
  assumes "chartStructure data = Some cs"
  shows "xKey cs \<notin> set (yKeys cs)"
  using chartStructure_SomeD [OF assms] by auto

section \<open>Facts about writing own properties\<close>

lemma map_of_insert_index:
  "k \<notin> fst ` set e \<Longrightarrow>
   map_of (insert_index i k v e) k' = (if k' = k then Some v else map_of e k')"
  by (induction e) (auto split: option.splits)

lemma keys_insert_index:
  "fst ` set (insert_index i k v e) = insert k (fst ` set e)"
proof (induction e)
  case Nil
  show ?case by simp
next
  case (Cons a e)
  obtain k0 v0 where a: "a = (k0, v0)"
    by (cases a)
  show ?case
    using Cons.IH by (cases "array_index k0") (simp_all add: a insert_commute)
qed

lemma distinct_insert_index:
  "distinct (map fst e) \<Longrightarrow> k \<notin> fst ` set e \<Longrightarrow> distinct (map fst (insert_index i k v e))"
  by (induction e) (auto simp: keys_insert_index split: option.splits)

lemma map_of_overwrite_any:
  "map_of (map (\<lambda>(k', v'). if k' = k then (k', v) else (k', v')) e) k'
     = (if k' = k then (if k \<in> fst ` set e then Some v else None) else map_of e k')"
proof (induction e)
  case Nil
  show ?case by simp
next
  case (Cons a e)
  obtain k0 v0 where a: "a = (k0, v0)"
    by (cases a)
  show ?case
    using Cons.IH by (cases "k' = k") (simp_all add: a)
qed

lemma map_of_overwrite:
  "k \<in> fst ` set e \<Longrightarrow>
   map_of (map (\<lambda>(k', v'). if k' = k then (k', v) else (k', v')) e) k'
     = (if k' = k then Some v else map_of e k')"
  by (simp add: map_of_overwrite_any)

lemma keys_overwrite:
  "map fst (map (\<lambda>(k', v'). if k' = k then (k', v) else (k', v')) e) = map fst e"
  by (induction e) auto

lemma put_own_present:
  "k \<in> fst ` set e \<Longrightarrow> put_own e k v = map (\<lambda>(k', v'). if k' = k then (k', v) else (k', v')) e"
  by (simp add: put_own_def)

lemma put_own_absent:
  "k \<notin> fst ` set e \<Longrightarrow>
   put_own e k v = (case array_index k of Some i \<Rightarrow> insert_index i k v e | None \<Rightarrow> e @ [(k, v)])"
  by (simp add: put_own_def)

lemma keys_put_own_present: "k \<in> fst ` set e \<Longrightarrow> map fst (put_own e k v) = map fst e"
  by (simp only: put_own_present keys_overwrite)

text \<open>Reading back what was written.\<close>

lemma map_of_put_own: "map_of (put_own e k v) k' = (if k' = k then Some v else map_of e k')"
proof (cases "k \<in> fst ` set e")
  case True
  then show ?thesis
    by (simp only: put_own_present map_of_overwrite)
next
  case False
  then have n: "map_of e k = None"
    by (simp add: map_of_eq_None_iff)
  show ?thesis
  proof (cases "array_index k")
    case None
    with False n show ?thesis
      by (auto simp: put_own_absent map_add_def split: option.splits)
  next
    case (Some i)
    with False show ?thesis
      by (simp add: put_own_absent map_of_insert_index)
  qed
qed

lemma keys_put_own: "fst ` set (put_own e k v) = insert k (fst ` set e)"
proof (cases "k \<in> fst ` set e")
  case True
  from keys_put_own_present [OF True, of v] have "set (map fst (put_own e k v)) = set (map fst e)"
    by (rule arg_cong)
  with True show ?thesis
    by (simp add: insert_absorb)
next
  case False
  then show ?thesis
    by (cases "array_index k") (simp_all add: put_own_absent keys_insert_index)
qed

lemma distinct_put_own: "distinct (map fst e) \<Longrightarrow> distinct (map fst (put_own e k v))"
proof (cases "k \<in> fst ` set e")
  case True
  assume "distinct (map fst e)"
  then show ?thesis
    by (simp only: keys_put_own_present [OF True])
next
  case False
  assume "distinct (map fst e)"
  with False show ?thesis
    by (cases "array_index k") (simp_all add: put_own_absent distinct_insert_index)
qed

text \<open>The loop over the value keys, started from any object.\<close>

lemma map_of_fold:
  "map_of (foldl (\<lambda>entry key. put_own entry key (f key)) e ks) k
     = (if k \<in> set ks then Some (f k) else map_of e k)"
  by (induction ks arbitrary: e) (simp_all add: map_of_put_own)

lemma keys_fold:
  "fst ` set (foldl (\<lambda>entry key. put_own entry key (f key)) e ks) = fst ` set e \<union> set ks"
  by (induction ks arbitrary: e) (simp_all add: keys_put_own)

lemma distinct_fold:
  "distinct (map fst e) \<Longrightarrow> distinct (map fst (foldl (\<lambda>entry key. put_own entry key (f key)) e ks))"
  by (induction ks arbitrary: e) (simp_all add: distinct_put_own)

lemma fold_cong:
  "(\<And>k. k \<in> set ks \<Longrightarrow> f k = f' k) \<Longrightarrow>
   foldl (\<lambda>entry key. put_own entry key (f key)) e ks = foldl (\<lambda>entry key. put_own entry key (f' key)) e ks"
  by (induction ks arbitrary: e) simp_all

text \<open>Changing the values of an object key by key commutes with writing a property.\<close>

lemma insert_index_map_values:
  "map (\<lambda>(k, v). (k, g k v)) (insert_index i k v e)
     = insert_index i k (g k v) (map (\<lambda>(k, v). (k, g k v)) e)"
proof (induction e)
  case Nil
  show ?case by simp
next
  case (Cons a e)
  obtain k0 v0 where a: "a = (k0, v0)"
    by (cases a)
  show ?case
    using Cons.IH by (cases "array_index k0") (simp_all add: a)
qed

lemma overwrite_map_values:
  "map (\<lambda>(k, v). (k, g k v)) (map (\<lambda>(k', v'). if k' = k then (k', v) else (k', v')) e)
     = map (\<lambda>(k', v'). if k' = k then (k', g k v) else (k', v')) (map (\<lambda>(k, v). (k, g k v)) e)"
  by (induction e) auto

lemma keys_map_values: "fst ` set (map (\<lambda>(k, v). (k, g k v)) e) = fst ` set e"
  by (induction e) auto

lemma put_own_map_values:
  "map (\<lambda>(k, v). (k, g k v)) (put_own e k v) = put_own (map (\<lambda>(k, v). (k, g k v)) e) k (g k v)"
proof (cases "k \<in> fst ` set e")
  case True
  then have "k \<in> fst ` set (map (\<lambda>(k, v). (k, g k v)) e)"
    by (simp only: keys_map_values)
  note r = put_own_present [OF this, of "g k v"]
  note l = put_own_present [OF True, of v]
  show ?thesis
    unfolding l r by (rule overwrite_map_values)
next
  case False
  then have "k \<notin> fst ` set (map (\<lambda>(k, v). (k, g k v)) e)"
    by (simp only: keys_map_values not_False_eq_True)
  note r = put_own_absent [OF this, of "g k v"]
  note l = put_own_absent [OF False, of v]
  show ?thesis
    unfolding l r by (cases "array_index k") (simp_all add: insert_index_map_values)
qed

lemma fold_map_values:
  "map (\<lambda>(k, v). (k, g k v)) (foldl (\<lambda>entry key. put_own entry key (f key)) e ks)
     = foldl (\<lambda>entry key. put_own entry key (g key (f key))) (map (\<lambda>(k, v). (k, g k v)) e) ks"
  by (induction ks arbitrary: e) (simp_all add: put_own_map_values)

section \<open>Facts about the sanitized records\<close>

lemma Put_plain: "k \<noteq> ''__proto__'' \<Longrightarrow> Put (JObj p kvs) k v = JObj p (put_own kvs k v)"
  by simp

lemma coerce_step:
  "Number v = Inr value \<Longrightarrow>
   (if Number_isFinite (JNum value) then JNum value else JNull) = coerced v"
  by (cases "value") (simp_all add: coerced_def)

lemma coerced_cases: "coerced v = JNull \<or> (\<exists>q. coerced v = JNum (Finite q))"
  by (simp add: coerced_def split: sum.splits jsnum.splits)

lemma Number_coerced: "\<exists>n. Number (coerced v) = Inr n"
  using coerced_cases [of v] by auto

lemma coerced_coerced:
  "coerced (coerced v) = (if coerced v = JNull then JNum (Finite 0) else coerced v)"
  using coerced_cases [of v] by (auto simp: coerced_def)

text \<open>The loop over the value keys, when no key is \<^verbatim>\<open>__proto__\<close>: it succeeds exactly when every coercion does.\<close>

lemma fill_plain:
  assumes "''__proto__'' \<notin> set ks" and "\<forall>k \<in> set ks. \<exists>n. Number (Get row k) = Inr n"
  shows "fill row (JObj p kvs) ks =
    Inr (JObj p (foldl (\<lambda>e key. put_own e key (coerced (Get row key))) kvs ks))"
  using assms
proof (induction ks arbitrary: kvs)
  case Nil
  show ?case by simp
next
  case (Cons k ks)
  from Cons.prems obtain n where n: "Number (Get row k) = Inr n"
    by auto
  from Cons.prems have k: "k \<noteq> ''__proto__''"
    by auto
  from Cons.prems have rest: "''__proto__'' \<notin> set ks" "\<forall>k \<in> set ks. \<exists>n. Number (Get row k) = Inr n"
    by auto
  show ?case
    by (simp add: n coerce_step [OF n] Put_plain [OF k] Cons.IH [OF rest] del: Put.simps)
qed

lemma fill_Inr_D:
  "fill row entry ks = Inr e \<Longrightarrow> \<forall>k \<in> set ks. \<exists>n. Number (Get row k) = Inr n"
proof (induction ks arbitrary: entry)
  case Nil
  show ?case by simp
next
  case (Cons k ks)
  from Cons.prems obtain n where n: "Number (Get row k) = Inr n"
    by (cases "Number (Get row k)") simp_all
  with Cons.prems have "fill row (Put entry k (coerced (Get row k))) ks = Inr e"
    by (simp add: coerce_step [OF n])
  from Cons.IH [OF this] n show ?case
    by simp
qed

lemma entry_of_succeeds:
  assumes "''__proto__'' \<notin> set (xKey cs # yKeys cs)"
    and "\<forall>k \<in> set (yKeys cs). \<exists>n. Number (Get row k) = Inr n"
  shows "entry_of cs row = Inr (plain_entry cs row)"
proof -
  from assms(1) have ys: "''__proto__'' \<notin> set (yKeys cs)" and x: "xKey cs \<noteq> ''__proto__''"
    by auto
  show ?thesis
    by (simp add: entry_of_def plain_entry_def fill_plain [OF ys assms(2)] Put_plain [OF x]
        del: Put.simps)
qed

lemma entry_of_plain:
  assumes "''__proto__'' \<notin> set (xKey cs # yKeys cs)" and "entry_of cs row = Inr e"
  shows "e = plain_entry cs row"
proof -
  from assms(2) obtain entry where "fill row (JObj JObjectPrototype []) (yKeys cs) = Inr entry"
    by (cases "fill row (JObj JObjectPrototype []) (yKeys cs)") (simp_all add: entry_of_def)
  from fill_Inr_D [OF this] have "\<forall>k \<in> set (yKeys cs). \<exists>n. Number (Get row k) = Inr n" .
  from entry_of_succeeds [OF assms(1) this] assms(2) show ?thesis
    by simp
qed

lemma object_row_plain_entry: "object_row (plain_entry cs row)"
  by (simp add: plain_entry_def object_row_def)

lemma Get_plain_entry_xKey: "Get (plain_entry cs row) (xKey cs) = Get row (xKey cs)"
  by (simp add: plain_entry_def map_of_put_own)

lemma Get_plain_entry_yKey:
  "key \<in> set (yKeys cs) \<Longrightarrow> key \<noteq> xKey cs \<Longrightarrow>
   Get (plain_entry cs row) key = coerced (Get row key)"
  by (simp add: plain_entry_def map_of_put_own map_of_fold)

lemma plain_entry_sanitized_record:
  assumes "xKey cs \<notin> set (yKeys cs)"
  shows "sanitized_record cs row (plain_entry cs row)"
  using assms
  by (simp add: sanitized_record_def plain_entry_def map_of_put_own keys_put_own distinct_put_own
      map_of_fold keys_fold distinct_fold)

text \<open>Building the record of a record again, with the same keys, only turns its nulls into zeros.\<close>

lemma plain_entry_again:
  assumes "xKey cs \<notin> set (yKeys cs)"
  shows "plain_entry cs (plain_entry cs row) = null_to_zero (yKeys cs) (plain_entry cs row)"
proof -
  let ?g = "\<lambda>k v. if k \<in> set (yKeys cs) \<and> v = JNull then JNum (Finite 0) else v"
  let ?G = "\<lambda>(k, v). (k, ?g k v)"
  let ?F = "foldl (\<lambda>e key. put_own e key (coerced (Get row key))) [] (yKeys cs)"
  have "foldl (\<lambda>e key. put_own e key (coerced (Get (plain_entry cs row) key))) [] (yKeys cs)
      = foldl (\<lambda>e key. put_own e key (?g key (coerced (Get row key)))) [] (yKeys cs)"
  proof (rule fold_cong)
    fix k assume k: "k \<in> set (yKeys cs)"
    with assms have "k \<noteq> xKey cs"
      by auto
    with k show "coerced (Get (plain_entry cs row) k) = ?g k (coerced (Get row k))"
      by (simp add: Get_plain_entry_yKey coerced_coerced)
  qed
  also have "\<dots> = map ?G ?F"
    using fold_map_values [of ?g "\<lambda>key. coerced (Get row key)" "[]" "yKeys cs"] by simp
  finally have fold: "foldl (\<lambda>e key. put_own e key (coerced (Get (plain_entry cs row) key))) []
      (yKeys cs) = map ?G ?F" .
  have "put_own (map ?G ?F) (xKey cs) (Get row (xKey cs))
      = put_own (map ?G ?F) (xKey cs) (?g (xKey cs) (Get row (xKey cs)))"
    using assms by simp
  also have "\<dots> = map ?G (put_own ?F (xKey cs) (Get row (xKey cs)))"
    by (rule put_own_map_values [symmetric])
  finally have last: "put_own (map ?G ?F) (xKey cs) (Get row (xKey cs))
      = map ?G (put_own ?F (xKey cs) (Get row (xKey cs)))" .
  have "plain_entry cs (plain_entry cs row)
      = JObj JObjectPrototype (put_own (map ?G ?F) (xKey cs) (Get row (xKey cs)))"
    unfolding plain_entry_def [of cs "plain_entry cs row"] fold Get_plain_entry_xKey ..
  also have "\<dots> = JObj JObjectPrototype (map ?G (put_own ?F (xKey cs) (Get row (xKey cs))))"
    by (simp only: last)
  also have "\<dots> = null_to_zero (yKeys cs) (plain_entry cs row)"
    by (simp add: null_to_zero_def plain_entry_def)
  finally show ?thesis .
qed

lemma entry_of_plain_entry:
  assumes "''__proto__'' \<notin> set (xKey cs # yKeys cs)" and "xKey cs \<notin> set (yKeys cs)"
  shows "entry_of cs (plain_entry cs row) = Inr (null_to_zero (yKeys cs) (plain_entry cs row))"
proof -
  have "\<forall>k \<in> set (yKeys cs). \<exists>n. Number (Get (plain_entry cs row) k) = Inr n"
  proof
    fix k assume k: "k \<in> set (yKeys cs)"
    with assms(2) have "k \<noteq> xKey cs"
      by auto
    with k have "Get (plain_entry cs row) k = coerced (Get row k)"
      by (rule Get_plain_entry_yKey)
    with Number_coerced [of "Get row k"] show "\<exists>n. Number (Get (plain_entry cs row) k) = Inr n"
      by simp
  qed
  from entry_of_succeeds [OF assms(1) this] show ?thesis
    by (simp only: plain_entry_again [OF assms(2)])
qed

lemma map_rows_Inr:
  "map_rows f xs = Inr ys \<Longrightarrow> list_all2 (\<lambda>x y. f x = Inr y) xs ys"
proof (induction xs arbitrary: ys)
  case Nil
  then show ?case by simp
next
  case (Cons x xs)
  from Cons.prems obtain y where y: "f x = Inr y"
    by (cases "f x") simp_all
  from Cons.prems y obtain zs where zs: "map_rows f xs = Inr zs"
    by (cases "map_rows f xs") simp_all
  from Cons.prems y zs have "ys = y # zs"
    by simp
  with y Cons.IH [OF zs] show ?case
    by simp
qed

lemma map_rows_all:
  "(\<And>x. x \<in> set xs \<Longrightarrow> f x = Inr (g x)) \<Longrightarrow> map_rows f xs = Inr (map g xs)"
  by (induction xs) simp_all

lemma sanitized_Inr_D:
  assumes "chartStructure data = Some cs" and "sanitized data = Inr out"
  shows "\<exists>rows. data = JArr rows
       \<and> list_all2 (\<lambda>row e. entry_of cs row = Inr e) (filter object_row rows) out"
proof -
  from chartStructure_SomeD [OF assms(1)] obtain rows where d: "data = JArr rows"
    by blast
  from assms have "map_rows (entry_of cs) (filter object_row rows) = Inr out"
    by (simp add: sanitized_def sanitize_def d)
  from map_rows_Inr [OF this] d show ?thesis
    by blast
qed

text \<open>
  What of the specification's projection holds of the code: when no key of the shape is
  \<^verbatim>\<open>__proto__\<close> and no coercion throws, the output holds, in order, one sanitized record for
  each row that is a non-null object.
\<close>

lemma sanitized_projection_plain:
  assumes "chartStructure data = Some cs" and "''__proto__'' \<notin> set (xKey cs # yKeys cs)"
    and "sanitized data = Inr out"
  shows "\<exists>rows. data = JArr rows
       \<and> list_all2 (sanitized_record cs) (filter non_null_object rows) out"
proof -
  from sanitized_Inr_D [OF assms(1,3)] obtain rows where d: "data = JArr rows"
    and l: "list_all2 (\<lambda>row e. entry_of cs row = Inr e) (filter object_row rows) out"
    by blast
  have o: "object_row = non_null_object"
    by (rule ext) (rule object_row_iff)
  have "entry_of cs row = Inr e \<Longrightarrow> sanitized_record cs row e" for row e
    using entry_of_plain [OF assms(2)] plain_entry_sanitized_record [OF xKey_not_in_yKeys [OF assms(1)]]
    by blast
  with l have "list_all2 (sanitized_record cs) (filter object_row rows) out"
    by (rule list_all2_mono)
  with d show ?thesis
    by (simp add: o)
qed

section \<open>The claims about ChartPreview\<close>

text \<open>
  C1: the specification says that a sample row with a field of type string or number and
  another field holding a finite number always yields a shape, keyed by the first such
  field. The code does not do so when that first field is named by the empty string: on
  \<^verbatim>\<open>[{"":"Q1","sales":7}]\<close> the specification's reading gives the category key \<^verbatim>\<open>""\<close> and
  the value keys \<^verbatim>\<open>["sales"]\<close>, and the code gives no chart, because \<^verbatim>\<open>!xKey\<close> is also true
  of the empty string that \<^verbatim>\<open>find\<close> returned.
\<close>

theorem chartStructure_empty_key:
  "chartStructure (JArr [JObj JObjectPrototype [([], JStr ''Q1''), (''sales'', JNum (Finite 7))]])
     = None
   \<and> chartStructure_spec
        (JArr [JObj JObjectPrototype [([], JStr ''Q1''), (''sales'', JNum (Finite 7))]])
       = Some \<lparr>xKey = [], yKeys = [''sales'']\<rparr>"
  by code_simp

text \<open>
  C10: the inferer tests the key it found for truthiness. Whenever the first field of the
  sample row whose value is a string or a number is named by the empty string, the result
  is no chart, although that field is a field of the sample row and qualifies.
\<close>

theorem empty_named_category_no_chart:
  assumes "find object_row rows = Some sample"
    and "find (\<lambda>key. typeof (Get sample key) \<in> set [''string'', ''number''])
           (Object_keys sample) = Some []"
  shows "[] \<in> set (Object_keys sample)
       \<and> typeof (Get sample []) \<in> set [''string'', ''number'']
       \<and> chartStructure (JArr rows) = None"
proof (intro conjI)
  show "[] \<in> set (Object_keys sample)"
    using find_Some_holds [OF assms(2)] by (rule conjunct1)
  show "typeof (Get sample []) \<in> set [''string'', ''number'']"
    using find_Some_holds [OF assms(2)] by (rule conjunct2)
  show "chartStructure (JArr rows) = None"
    using assms by (cases rows) (simp_all add: chartStructure_def Let_def)
qed

theorem empty_named_category_no_chart_witness:
  "find object_row [JNull, JObj JObjectPrototype [([], JStr ''north''), (''n'', JNum (Finite 3))]]
     = Some (JObj JObjectPrototype [([], JStr ''north''), (''n'', JNum (Finite 3))])
   \<and> [] \<in> set (Object_keys (JObj JObjectPrototype [([], JStr ''north''), (''n'', JNum (Finite 3))]))
   \<and> chartStructure
        (JArr [JNull, JObj JObjectPrototype [([], JStr ''north''), (''n'', JNum (Finite 3))]]) = None"
proof -
  have h1: "find object_row
       [JNull, JObj JObjectPrototype [([], JStr ''north''), (''n'', JNum (Finite 3))]]
     = Some (JObj JObjectPrototype [([], JStr ''north''), (''n'', JNum (Finite 3))])"
    by code_simp
  have h2: "find (\<lambda>key. typeof (Get (JObj JObjectPrototype
                      [([], JStr ''north''), (''n'', JNum (Finite 3))]) key)
                  \<in> set [''string'', ''number''])
             (Object_keys (JObj JObjectPrototype [([], JStr ''north''), (''n'', JNum (Finite 3))]))
       = Some []"
    by code_simp
  from empty_named_category_no_chart [OF h1 h2] h1 show ?thesis
    by blast
qed

text \<open>
  C8: the specification says that every row that is a non-null object gets a record holding
  the category key's raw value, and \<^verbatim>\<open>null\<close> under a value key whose coercion fails. The code
  does not do so on two kinds of rows that a response can hold.

  On \<^verbatim>\<open>[{"__proto__":"A","v":1}]\<close> the category key is \<^verbatim>\<open>__proto__\<close>, and the assignment
  \<^verbatim>\<open>entry["__proto__"] = "A"\<close> to the fresh record calls the setter of \<^verbatim>\<open>Object.prototype\<close>,
  which stores nothing: the record is \<^verbatim>\<open>{v: 1}\<close>, and reading its category key gives
  \<^verbatim>\<open>Object.prototype\<close>, not \<^verbatim>\<open>"A"\<close>.

  On \<^verbatim>\<open>[{"name":"A","v":1},{"name":"B","v":{"toString":1}}]\<close> the coercion of the second
  row's value throws a \<^verbatim>\<open>TypeError\<close>, so there is no projection at all, where the
  specification wants \<^verbatim>\<open>null\<close>.
\<close>

theorem sanitized_misses_rows:
  "chartStructure proto_rows = Some \<lparr>xKey = ''__proto__'', yKeys = [''v'']\<rparr>
   \<and> sanitized proto_rows = Inr [JObj JObjectPrototype [(''v'', JNum (Finite 1))]]
   \<and> Get (JObj JObjectPrototype [(''v'', JNum (Finite 1))]) ''__proto__'' = JObjectPrototype
   \<and> chartStructure uncallable_rows = Some \<lparr>xKey = ''name'', yKeys = [''v'']\<rparr>
   \<and> sanitized uncallable_rows = Inl TypeError"
  by code_simp

text \<open>
  C2, as the specification states it, does not hold: inference on the sanitized output of
  \<^verbatim>\<open>[{"name":"A","value":5},{"name":"B","value":"oops"}]\<close>, whose records are
  \<^verbatim>\<open>{value: 5, name: "A"}\<close> and \<^verbatim>\<open>{value: null, name: "B"}\<close>, takes \<^verbatim>\<open>value\<close> for the
  category key, finds no value key left, and yields no chart.
\<close>

theorem reinference_loses_shape:
  "chartStructure sample_rows = Some \<lparr>xKey = ''name'', yKeys = [''value'']\<rparr>
   \<and> sanitized sample_rows =
       Inr [JObj JObjectPrototype [(''value'', JNum (Finite 5)), (''name'', JStr ''A'')],
            JObj JObjectPrototype [(''value'', JNull), (''name'', JStr ''B'')]]
   \<and> chartStructure
        (JArr [JObj JObjectPrototype [(''value'', JNum (Finite 5)), (''name'', JStr ''A'')],
               JObj JObjectPrototype [(''value'', JNull), (''name'', JStr ''B'')]]) = None"
  by code_simp

text \<open>
  Inference on the sanitized output can also keep the shape: it does when the category key
  is an array index, which a record lists before its other keys.
\<close>

lemma reinference_keeps_index_shape:
  "chartStructure (JArr [JArr [JStr ''a'', JNum (Finite 5)]]) = Some \<lparr>xKey = ''0'', yKeys = [''1'']\<rparr>
   \<and> sanitized (JArr [JArr [JStr ''a'', JNum (Finite 5)]]) =
       Inr [JObj JObjectPrototype [(''0'', JStr ''a''), (''1'', JNum (Finite 5))]]
   \<and> chartStructure (JArr [JObj JObjectPrototype [(''0'', JStr ''a''), (''1'', JNum (Finite 5))]])
       = Some \<lparr>xKey = ''0'', yKeys = [''1'']\<rparr>"
  by code_simp

text \<open>
  C2, amended: when a shape is inferred, none of its keys is \<^verbatim>\<open>__proto__\<close>, and sanitizing
  completes with some output, then sanitizing that output again with the same shape
  completes too and yields the same records, in the same order and with the same keys and
  values, except that every \<^verbatim>\<open>null\<close> under a value key becomes \<open>0\<close>.
\<close>

theorem resanitize_with_same_shape:
  assumes "chartStructure data = Some cs" and "''__proto__'' \<notin> set (xKey cs # yKeys cs)"
    and "sanitized data = Inr out"
  shows "sanitize cs out = Inr (map (null_to_zero (yKeys cs)) out)"
proof -
  note x = xKey_not_in_yKeys [OF assms(1)]
  from sanitized_Inr_D [OF assms(1,3)] obtain rows where
    l: "list_all2 (\<lambda>row e. entry_of cs row = Inr e) (filter object_row rows) out"
    by blast
  have p: "\<exists>row. e = plain_entry cs row" if "e \<in> set out" for e
  proof -
    from that l obtain row where "entry_of cs row = Inr e"
      by (auto simp: list_all2_conv_all_nth in_set_conv_nth)
    from entry_of_plain [OF assms(2) this] show ?thesis
      by blast
  qed
  have "object_row e" if "e \<in> set out" for e
    using p [OF that] object_row_plain_entry by auto
  then have "filter object_row out = out"
    by (simp add: filter_id_conv)
  moreover have "map_rows (entry_of cs) out = Inr (map (null_to_zero (yKeys cs)) out)"
  proof (rule map_rows_all)
    fix e assume "e \<in> set out"
    from p [OF this] show "entry_of cs e = Inr (null_to_zero (yKeys cs) e)"
      using entry_of_plain_entry [OF assms(2) x] by auto
  qed
  ultimately show ?thesis
    by (simp add: sanitize_def)
qed

theorem resanitize_with_same_shape_witness:
  "chartStructure sample_rows = Some \<lparr>xKey = ''name'', yKeys = [''value'']\<rparr>
   \<and> ''__proto__'' \<notin> set (xKey \<lparr>xKey = ''name'', yKeys = [''value'']\<rparr>
                            # yKeys \<lparr>xKey = ''name'', yKeys = [''value'']\<rparr>)
   \<and> sanitized sample_rows =
       Inr [JObj JObjectPrototype [(''value'', JNum (Finite 5)), (''name'', JStr ''A'')],
            JObj JObjectPrototype [(''value'', JNull), (''name'', JStr ''B'')]]
   \<and> sanitize \<lparr>xKey = ''name'', yKeys = [''value'']\<rparr>
        [JObj JObjectPrototype [(''value'', JNum (Finite 5)), (''name'', JStr ''A'')],
         JObj JObjectPrototype [(''value'', JNull), (''name'', JStr ''B'')]] =
       Inr [JObj JObjectPrototype [(''value'', JNum (Finite 5)), (''name'', JStr ''A'')],
            JObj JObjectPrototype [(''value'', JNum (Finite 0)), (''name'', JStr ''B'')]]"
proof -
  have h1: "chartStructure sample_rows = Some \<lparr>xKey = ''name'', yKeys = [''value'']\<rparr>"
    by code_simp
  have h2: "''__proto__'' \<notin> set (xKey \<lparr>xKey = ''name'', yKeys = [''value'']\<rparr>
                            # yKeys \<lparr>xKey = ''name'', yKeys = [''value'']\<rparr>)"
    by simp
  have h3: "sanitized sample_rows =
       Inr [JObj JObjectPrototype [(''value'', JNum (Finite 5)), (''name'', JStr ''A'')],
            JObj JObjectPrototype [(''value'', JNull), (''name'', JStr ''B'')]]"
    by code_simp
  have e: "Inr (map (null_to_zero (yKeys \<lparr>xKey = ''name'', yKeys = [''value'']\<rparr>))
        [JObj JObjectPrototype [(''value'', JNum (Finite 5)), (''name'', JStr ''A'')],
         JObj JObjectPrototype [(''value'', JNull), (''name'', JStr ''B'')]]) =
       (Inr [JObj JObjectPrototype [(''value'', JNum (Finite 5)), (''name'', JStr ''A'')],
            JObj JObjectPrototype [(''value'', JNum (Finite 0)), (''name'', JStr ''B'')]]
         :: js_error + jsval list)"
    by code_simp
  from resanitize_with_same_shape [OF h1 h2 h3] e
  have "sanitize \<lparr>xKey = ''name'', yKeys = [''value'']\<rparr>
        [JObj JObjectPrototype [(''value'', JNum (Finite 5)), (''name'', JStr ''A'')],
         JObj JObjectPrototype [(''value'', JNull), (''name'', JStr ''B'')]] =
       Inr [JObj JObjectPrototype [(''value'', JNum (Finite 5)), (''name'', JStr ''A'')],
            JObj JObjectPrototype [(''value'', JNum (Finite 0)), (''name'', JStr ''B'')]]"
    by (rule trans)
  with h1 h2 h3 show ?thesis
    by (intro conjI)
qed

end
